theory Spec2Isabelle
  imports Main "HOL-Library.Word"
begin

section \<open>JavaScript values\<close>

text \<open>
  The adapter of \<^verbatim>\<open>index.js\<close> looks at its options with \<^verbatim>\<open>typeof\<close> and with
  JavaScript truthiness, so the values it receives are modelled with one constructor per
  outcome of \<^verbatim>\<open>typeof\<close>; \<open>null\<close> is kept apart from objects because its
  \<^verbatim>\<open>typeof\<close> is \<^verbatim>\<open>'object'\<close> while it has no properties. The type is
  parametric in what a function value and what an object value carries: a strategy, a
  storage client. Numbers are integers here (\<open>NaN\<close> and fractions play no part in the
  adapter).
\<close>

datatype ('f, 'o) jsval =
    JUndefined
  | JNull
  | JBool bool
  | JNum int
  | JBigInt int
  | JStr string
  | JSymbol string
  | JFun 'f
  | JObj 'o

fun typeof :: "('f, 'o) jsval \<Rightarrow> string" where
  "typeof JUndefined = ''undefined''"
| "typeof JNull = ''object''"
| "typeof (JBool b) = ''boolean''"
| "typeof (JNum n) = ''number''"
| "typeof (JBigInt n) = ''bigint''"
| "typeof (JStr s) = ''string''"
| "typeof (JSymbol s) = ''symbol''"
| "typeof (JFun f) = ''function''"
| "typeof (JObj ob) = ''object''"

text \<open>What \<^verbatim>\<open>if (x)\<close>, \<^verbatim>\<open>!x\<close>, \<^verbatim>\<open>x && y\<close> and \<^verbatim>\<open>x || y\<close> test.\<close>

fun truthy :: "('f, 'o) jsval \<Rightarrow> bool" where
  "truthy JUndefined = False"
| "truthy JNull = False"
| "truthy (JBool b) = b"
| "truthy (JNum n) = (n \<noteq> 0)"
| "truthy (JBigInt n) = (n \<noteq> 0)"
| "truthy (JStr s) = (s \<noteq> [])"
| "truthy (JSymbol s) = True"
| "truthy (JFun f) = True"
| "truthy (JObj ob) = True"

text \<open>
  Errors are values: the two classes the adapter constructs itself, which are also what
  the JavaScript runtime raises when a non-function is called or a property of
  \<open>null\<close> is read.
\<close>

datatype js_error = Error string | TypeError string


section \<open>Streams, files and the environment\<close>

text \<open>
  A readable stream is the sequence of chunks it emits, a chunk a sequence of bytes. The
  bytes a consumer receives from a stream are the concatenation of its chunks.
\<close>

type_synonym byte = "8 word"
type_synonym chunk = "byte list"
type_synonym readable = "chunk list"

definition bytes :: "readable \<Rightarrow> byte list" where
  "bytes s = concat s"

text \<open>
  The file descriptor the middleware passes to \<^verbatim>\<open>_handleFile\<close>.
\<close>

record file_descriptor =
  fieldname :: string
  originalname :: string
  mimetype :: string
  stream :: readable

text \<open>
  A resolved attribute is any JavaScript value a strategy passes to its callback: a string,
  \<open>null\<close>, or an object such as the metadata table.
\<close>

type_synonym val = "(unit, (string \<times> string) list) jsval"

text \<open>
  What the adapter obtains from outside the repository and cannot compute itself is
  gathered in an environment:
  \<^item> \<open>randomBytes\<close>, \<open>randomBytes_at\<close>: what \<^verbatim>\<open>crypto.randomBytes(16, cb)\<close>
    passes to its callback, and when;
  \<^item> \<open>fileTypeFromBuffer\<close>: the mime type the \<^verbatim>\<open>file-type\<close> package finds from
    the magic bytes of a buffer, if any;
  \<^item> \<open>isSvg\<close>: the verdict of the \<^verbatim>\<open>is-svg\<close> package;
  \<^item> \<open>missed\<close>: the number of chunks the file's stream emits while the handler of
    \<^verbatim>\<open>autoContentType\<close> is suspended (see there).
\<close>

record env =
  randomBytes :: "js_error + byte list"
  randomBytes_at :: nat
  fileTypeFromBuffer :: "chunk \<Rightarrow> string option"
  isSvg :: "chunk \<Rightarrow> bool"
  missed :: nat

section \<open>Strategies\<close>

text \<open>
  A strategy is a function \<^verbatim>\<open>(req, file, cb)\<close> that follows the single-callback
  convention: it calls \<^verbatim>\<open>cb(err, value, replacementStream)\<close> at most once.
  \<open>Reply t err v r\<close> is that call, made at time \<open>t\<close>: 0 for a call made before the
  strategy returns, a later time for a call made from a later turn of the event loop;
  \<open>NoReply\<close> is a strategy that never calls back. An error is a truthy first argument.
  The times order the calls of the strategies that run in parallel; the third argument is
  read from the content-type strategy only. A strategy that throws instead of calling back
  is not modelled.
\<close>

datatype 'v reply = NoReply | Reply nat "js_error option" 'v "readable option"

type_synonym ('r, 'v) strategy = "env \<Rightarrow> 'r \<Rightarrow> file_descriptor \<Rightarrow> 'v reply"

definition staticValue :: "'v \<Rightarrow> ('r, 'v) strategy" where
  "staticValue v = (\<lambda>env req file. Reply 0 None v None)"

definition defaultAcl :: "('r, val) strategy" where
  "defaultAcl = staticValue (JStr ''private'')"

definition defaultContentType :: "('r, string) strategy" where
  "defaultContentType = staticValue ''application/octet-stream''"

definition defaultMetadata :: "('r, val) strategy" where
  "defaultMetadata = staticValue JNull"

definition defaultCacheControl :: "('r, val) strategy" where
  "defaultCacheControl = staticValue JNull"

definition defaultContentDisposition :: "('r, val) strategy" where
  "defaultContentDisposition = staticValue JNull"

definition defaultStorageClass :: "('r, val) strategy" where
  "defaultStorageClass = staticValue (JStr ''STANDARD'')"

definition defaultSSE :: "('r, val) strategy" where
  "defaultSSE = staticValue JNull"

definition defaultSSEKMS :: "('r, val) strategy" where
  "defaultSSEKMS = staticValue JNull"

text \<open>\<^verbatim>\<open>raw.toString('hex')\<close>: two lower-case hexadecimal digits per byte.\<close>

definition hexDigit :: "nat \<Rightarrow> char" where
  "hexDigit n = ''0123456789abcdef'' ! (n mod 16)"

definition toHex :: "byte list \<Rightarrow> string" where
  "toHex raw = concat (map (\<lambda>b. [hexDigit (unat b div 16), hexDigit (unat b mod 16)]) raw)"

definition defaultKey :: "('r, val) strategy" where
  "defaultKey = (\<lambda>env req file.
     case randomBytes env of
       Inl err \<Rightarrow> Reply (randomBytes_at env) (Some err) JUndefined None
     | Inr raw \<Rightarrow> Reply (randomBytes_at env) None (JStr (toHex raw)) None)"

text \<open>
  \<^verbatim>\<open>autoContentType\<close> waits for the first \<^verbatim>\<open>'data'\<close> event of the file's stream; a
  stream that ends without emitting a chunk never triggers the handler, and the callback is
  never called. The handler classifies the chunk (magic bytes first, then SVG, then the
  generic type), writes the chunk to a fresh pass-through stream, pipes the file's stream
  into it and calls back with the mime type and the pass-through stream.

  The handler is an \<^verbatim>\<open>async\<close> function: between receiving \<open>firstChunk\<close> and calling
  \<^verbatim>\<open>file.stream.pipe(outStream)\<close> it is suspended twice (\<^verbatim>\<open>await import('file-type')\<close>
  and \<^verbatim>\<open>await fileTypeFromBuffer(firstChunk)\<close>). Registering the \<^verbatim>\<open>'data'\<close> listener
  has put the file's stream into flowing mode, and \<^verbatim>\<open>once\<close> has removed the listener
  before the handler ran, so every chunk the stream emits until the handler resumes is
  delivered to no listener; \<^verbatim>\<open>pipe\<close> forwards what is emitted after it is called.
  \<open>missed env\<close> is the number of chunks emitted in between; it is 0 when the stream
  emits nothing until the handler has resumed.
\<close>

definition autoContentType :: "('r, string) strategy" where
  "autoContentType = (\<lambda>env req file.
     case stream file of
       [] \<Rightarrow> NoReply
     | firstChunk # rest \<Rightarrow>
         let mime =
               (case fileTypeFromBuffer env firstChunk of
                  Some m \<Rightarrow> m
                | None \<Rightarrow>
                    if isSvg env firstChunk then ''image/svg+xml''
                    else ''application/octet-stream'');
             outStream = firstChunk # drop (missed env) rest
         in Reply 1 None mime (Some outStream))"

section \<open>The storage collaborator\<close>

text \<open>
  The request \<^verbatim>\<open>_handleFile\<close> hands to \<^verbatim>\<open>s3.upload\<close>. \<open>Body\<close> is the stream the
  collaborator reads; \<open>ContentDisposition\<close> is a property that is only set when the
  resolved value is truthy.
\<close>

record params =
  Bucket :: val
  Key :: val
  ACL :: val
  CacheControl :: val
  ContentType :: string
  Metadata :: val
  StorageClass :: val
  ServerSideEncryption :: val
  SSEKMSKeyId :: val
  Body :: readable
  ContentDisposition :: "val option"

record s3_result =
  Location :: val
  ETag :: val
  VersionId :: val

text \<open>
  What a managed upload does once \<^verbatim>\<open>send\<close> has been called, in the order it does it:
  it emits \<^verbatim>\<open>'httpUploadProgress'\<close> events, whose \<open>total\<close> is a number or absent,
  and it calls the callback of \<^verbatim>\<open>send\<close> with an error or with a result.
\<close>

datatype upload_event = HttpUploadProgress "nat option" | Sent "js_error + s3_result"

text \<open>
  A storage client: what \<^verbatim>\<open>upload(params)\<close> followed by \<^verbatim>\<open>send\<close> does, and the
  calls \<^verbatim>\<open>deleteObject({Bucket, Key}, cb)\<close> makes to \<open>cb\<close>.
\<close>

record s3client =
  upload :: "params \<Rightarrow> upload_event list"
  deleteObject :: "val \<Rightarrow> val \<Rightarrow> (js_error option \<times> val) list"

section \<open>Construction\<close>

text \<open>
  A stream transform maps the chunks piped into it to the chunks it emits. A function that
  \<^verbatim>\<open>_handleFile\<close> calls without an argument is given by what the call does: it
  throws, or it returns a falsy value, a transform stream, or another truthy value, one
  that is not a stream and that \<^verbatim>\<open>pipe\<close> rejects.

  The constructor stores the \<open>transforms\<close> option as it is, and \<^verbatim>\<open>_handleFile\<close>
  uses it in three ways: a falsy value (\<^verbatim>\<open>undefined\<close>, \<^verbatim>\<open>null\<close>,
  \<^verbatim>\<open>false\<close>, \<^verbatim>\<open>0\<close>, the empty string) means no transform, a function is
  the factory shared by all fields, and any other value is indexed with the field name.
  Such a value, an object literal or any other, is given by what the lookup
  \<^verbatim>\<open>this.transforms[name]\<close> finds under each name, among the own properties of the
  value and among the properties it inherits through its prototype chain: \<open>Some r\<close>
  for a function, \<open>r\<close> being what calling it on the value without an argument does, and
  \<open>None\<close> for anything that is not a function, the \<^verbatim>\<open>undefined\<close> of an absent
  property included.
\<close>

type_synonym transform = "readable \<Rightarrow> readable"

datatype returned =
    Throws js_error
  | ReturnsFalsy
  | ReturnsStream transform
  | ReturnsOther

type_synonym factory = returned

datatype transforms_value =
    NoTransforms
  | SharedFactory factory
  | PerField "string \<Rightarrow> factory option"

record 'r options =
  o_s3 :: "(unit, s3client) jsval"
  o_bucket :: "(('r, val) strategy, unit) jsval"
  o_key :: "(('r, val) strategy, unit) jsval"
  o_acl :: "(('r, val) strategy, unit) jsval"
  o_contentType :: "(('r, string) strategy, unit) jsval"
  o_metadata :: "(('r, val) strategy, unit) jsval"
  o_cacheControl :: "(('r, val) strategy, unit) jsval"
  o_contentDisposition :: "(('r, val) strategy, unit) jsval"
  o_storageClass :: "(('r, val) strategy, unit) jsval"
  o_serverSideEncryption :: "(('r, val) strategy, unit) jsval"
  o_sseKmsKeyId :: "(('r, val) strategy, unit) jsval"
  o_throwMimeTypeConflictErrors :: "(unit, unit) jsval"
  o_transforms :: transforms_value

record 'r storage =
  s3 :: "(unit, s3client) jsval"
  getBucket :: "('r, val) strategy"
  getKey :: "('r, val) strategy"
  getAcl :: "('r, val) strategy"
  getContentType :: "('r, string) strategy"
  getMetadata :: "('r, val) strategy"
  getCacheControl :: "('r, val) strategy"
  getContentDisposition :: "('r, val) strategy"
  getStorageClass :: "('r, val) strategy"
  getSSE :: "('r, val) strategy"
  getSSEKMS :: "('r, val) strategy"
  throwMimeTypeConflictErrors :: "(unit, unit) jsval"
  transforms :: transforms_value

text \<open>
  Each \<^verbatim>\<open>switch (typeof opts.x)\<close> of the constructor is a function from the option's
  value to the strategy stored in the adapter, or to the error thrown. The cases are the
  constructors whose \<open>typeof\<close> is the \<^verbatim>\<open>case\<close> label (\<open>typeof_cases\<close> below); the last
  equation is the \<^verbatim>\<open>default\<close> branch.
\<close>

fun bucket_case :: "(('r, val) strategy, unit) jsval \<Rightarrow> js_error + ('r, val) strategy" where
  "bucket_case (JFun f) = Inr f"
| "bucket_case (JStr s) = Inr (staticValue (JStr s))"
| "bucket_case JUndefined = Inl (Error ''bucket is required'')"
| "bucket_case _ = Inl (TypeError ''Expected opts.bucket to be undefined, string or function'')"

fun key_case :: "(('r, val) strategy, unit) jsval \<Rightarrow> js_error + ('r, val) strategy" where
  "key_case (JFun f) = Inr f"
| "key_case JUndefined = Inr defaultKey"
| "key_case _ = Inl (TypeError ''Expected opts.key to be undefined or function'')"

fun acl_case :: "(('r, val) strategy, unit) jsval \<Rightarrow> js_error + ('r, val) strategy" where
  "acl_case (JFun f) = Inr f"
| "acl_case (JStr s) = Inr (staticValue (JStr s))"
| "acl_case JUndefined = Inr defaultAcl"
| "acl_case _ = Inl (TypeError ''Expected opts.acl to be undefined, string or function'')"

fun contentType_case ::
  "(('r, string) strategy, unit) jsval \<Rightarrow> js_error + ('r, string) strategy" where
  "contentType_case (JFun f) = Inr f"
| "contentType_case JUndefined = Inr defaultContentType"
| "contentType_case _ = Inl (TypeError ''Expected opts.contentType to be undefined or function'')"

fun metadata_case :: "(('r, val) strategy, unit) jsval \<Rightarrow> js_error + ('r, val) strategy" where
  "metadata_case (JFun f) = Inr f"
| "metadata_case JUndefined = Inr defaultMetadata"
| "metadata_case _ = Inl (TypeError ''Expected opts.metadata to be undefined or function'')"

fun cacheControl_case ::
  "(('r, val) strategy, unit) jsval \<Rightarrow> js_error + ('r, val) strategy" where
  "cacheControl_case (JFun f) = Inr f"
| "cacheControl_case (JStr s) = Inr (staticValue (JStr s))"
| "cacheControl_case JUndefined = Inr defaultCacheControl"
| "cacheControl_case _ =
     Inl (TypeError ''Expected opts.cacheControl to be undefined, string or function'')"

fun contentDisposition_case ::
  "(('r, val) strategy, unit) jsval \<Rightarrow> js_error + ('r, val) strategy" where
  "contentDisposition_case (JFun f) = Inr f"
| "contentDisposition_case (JStr s) = Inr (staticValue (JStr s))"
| "contentDisposition_case JUndefined = Inr defaultContentDisposition"
| "contentDisposition_case _ =
     Inl (TypeError ''Expected opts.contentDisposition to be undefined, string or function'')"

fun storageClass_case ::
  "(('r, val) strategy, unit) jsval \<Rightarrow> js_error + ('r, val) strategy" where
  "storageClass_case (JFun f) = Inr f"
| "storageClass_case (JStr s) = Inr (staticValue (JStr s))"
| "storageClass_case JUndefined = Inr defaultStorageClass"
| "storageClass_case _ =
     Inl (TypeError ''Expected opts.storageClass to be undefined, string or function'')"

fun serverSideEncryption_case ::
  "(('r, val) strategy, unit) jsval \<Rightarrow> js_error + ('r, val) strategy" where
  "serverSideEncryption_case (JFun f) = Inr f"
| "serverSideEncryption_case (JStr s) = Inr (staticValue (JStr s))"
| "serverSideEncryption_case JUndefined = Inr defaultSSE"
| "serverSideEncryption_case _ =
     Inl (TypeError ''Expected opts.serverSideEncryption to be undefined, string or function'')"

fun sseKmsKeyId_case ::
  "(('r, val) strategy, unit) jsval \<Rightarrow> js_error + ('r, val) strategy" where
  "sseKmsKeyId_case (JFun f) = Inr f"
| "sseKmsKeyId_case (JStr s) = Inr (staticValue (JStr s))"
| "sseKmsKeyId_case JUndefined = Inr defaultSSEKMS"
| "sseKmsKeyId_case _ =
     Inl (TypeError ''Expected opts.sseKmsKeyId to be undefined, string, or function'')"

text \<open>A \<^verbatim>\<open>throw\<close> leaves the constructor: the remaining statements do not run.\<close>

definition orThrow :: "'e + 'a \<Rightarrow> ('a \<Rightarrow> 'e + 'b) \<Rightarrow> 'e + 'b" where
  "orThrow m f = (case m of Inl e \<Rightarrow> Inl e | Inr x \<Rightarrow> f x)"

text \<open>
  The constructor: the adapter, or the error thrown. The checks run in the order of the
  source; \<^verbatim>\<open>throwMimeTypeConflictErrors\<close> and \<^verbatim>\<open>transforms\<close> are stored as given.
\<close>

definition S3Storage :: "'r options \<Rightarrow> js_error + 'r storage" where
  "S3Storage opts =
    (if typeof (o_s3 opts) = ''object'' then
       orThrow (bucket_case (o_bucket opts)) (\<lambda>bucket_fn.
       orThrow (key_case (o_key opts)) (\<lambda>key_fn.
       orThrow (acl_case (o_acl opts)) (\<lambda>acl_fn.
       orThrow (contentType_case (o_contentType opts)) (\<lambda>contentType_fn.
       orThrow (metadata_case (o_metadata opts)) (\<lambda>metadata_fn.
       orThrow (cacheControl_case (o_cacheControl opts)) (\<lambda>cacheControl_fn.
       orThrow (contentDisposition_case (o_contentDisposition opts)) (\<lambda>contentDisposition_fn.
       orThrow (storageClass_case (o_storageClass opts)) (\<lambda>storageClass_fn.
       orThrow (serverSideEncryption_case (o_serverSideEncryption opts)) (\<lambda>sse_fn.
       orThrow (sseKmsKeyId_case (o_sseKmsKeyId opts)) (\<lambda>sseKms_fn.
         Inr \<lparr> s3 = o_s3 opts,
               getBucket = bucket_fn,
               getKey = key_fn,
               getAcl = acl_fn,
               getContentType = contentType_fn,
               getMetadata = metadata_fn,
               getCacheControl = cacheControl_fn,
               getContentDisposition = contentDisposition_fn,
               getStorageClass = storageClass_fn,
               getSSE = sse_fn,
               getSSEKMS = sseKms_fn,
               throwMimeTypeConflictErrors = o_throwMimeTypeConflictErrors opts,
               transforms = o_transforms opts \<rparr>))))))))))
     else Inl (TypeError ''Expected opts.s3 to be object''))"


section \<open>Attribute resolution\<close>

text \<open>
  \<^verbatim>\<open>run-parallel\<close> is a dependency of the adapter. It starts every task, in the order of
  the array, and calls the final callback once: with the error of the first task that
  reports one, as soon as it is reported, or with the array of all results, in task order,
  once every task has called back. It is never called when no task reports an error and
  some task never calls back.

  \<open>errors_of\<close> lists the errors reported, in task order, with their times; the first
  error encountered is the earliest one, and among errors reported at the same time (by
  tasks that call back before they return) the one of the task started first.
\<close>

fun errors_of :: "'v reply list \<Rightarrow> (nat \<times> js_error) list" where
  "errors_of [] = []"
| "errors_of (Reply t (Some e) v r # rs) = (t, e) # errors_of rs"
| "errors_of (Reply t None v r # rs) = errors_of rs"
| "errors_of (NoReply # rs) = errors_of rs"

fun earliest :: "nat \<times> js_error \<Rightarrow> (nat \<times> js_error) list \<Rightarrow> nat \<times> js_error" where
  "earliest best [] = best"
| "earliest best (x # xs) = earliest (if fst x < fst best then x else best) xs"

fun values_of :: "'v reply list \<Rightarrow> 'v list option" where
  "values_of [] = Some []"
| "values_of (NoReply # rs) = None"
| "values_of (Reply t err v r # rs) = map_option (Cons v) (values_of rs)"

definition parallel :: "'v reply list \<Rightarrow> (js_error + 'v list) option" where
  "parallel replies =
     (case errors_of replies of
        [] \<Rightarrow> map_option Inr (values_of replies)
      | x # xs \<Rightarrow> Some (Inl (snd (earliest x xs))))"

text \<open>The resolved attribute set \<^verbatim>\<open>collect\<close> passes on.\<close>

record attrs =
  bucket :: val
  key :: val
  acl :: val
  metadata :: val
  cacheControl :: val
  contentDisposition :: val
  storageClass :: val
  contentType :: string
  replacementStream :: "readable option"
  serverSideEncryption :: val
  sseKmsKeyId :: val

text \<open>
  The nine tasks of \<^verbatim>\<open>collect\<close>, in the order of its array, and \<^verbatim>\<open>collect\<close>
  itself: \<open>None\<close> when its callback is never called, the error or the attribute set it is
  called with otherwise. The content-type strategy is invoked only after the nine others
  have succeeded.
\<close>

definition tasks :: "env \<Rightarrow> 'r storage \<Rightarrow> 'r \<Rightarrow> file_descriptor \<Rightarrow> val reply list" where
  "tasks env this req file =
     [ getBucket this env req file,
       getKey this env req file,
       getAcl this env req file,
       getMetadata this env req file,
       getCacheControl this env req file,
       getContentDisposition this env req file,
       getStorageClass this env req file,
       getSSE this env req file,
       getSSEKMS this env req file ]"

definition collect ::
  "env \<Rightarrow> 'r storage \<Rightarrow> 'r \<Rightarrow> file_descriptor \<Rightarrow> (js_error + attrs) option" where
  "collect env this req file =
     (case parallel (tasks env this req file) of
        None \<Rightarrow> None
      | Some (Inl err) \<Rightarrow> Some (Inl err)
      | Some (Inr vs) \<Rightarrow>
          (case getContentType this env req file of
             NoReply \<Rightarrow> None
           | Reply t (Some err) ct rs \<Rightarrow> Some (Inl err)
           | Reply t None ct rs \<Rightarrow>
               Some (Inr \<lparr> bucket = vs ! 0,
                           key = vs ! 1,
                           acl = vs ! 2,
                           metadata = vs ! 3,
                           cacheControl = vs ! 4,
                           contentDisposition = vs ! 5,
                           storageClass = vs ! 6,
                           contentType = ct,
                           replacementStream = rs,
                           serverSideEncryption = vs ! 7,
                           sseKmsKeyId = vs ! 8 \<rparr>)))"

section \<open>Storing a file\<close>

text \<open>
  The transform of one upload, lines 168 to 173: the conditional expression that calls the
  shared factory, or whatever function the lookup of the field name finds, and the
  \<^verbatim>\<open>pipe\<close> of the source into what the call returns, when that is truthy. The result
  is \<open>Inr None\<close> when no transform is configured or the function called returns a falsy
  value, \<open>Inr (Some t)\<close> for the transform stream it returns, and otherwise the exception
  raised: the one the function throws, the \<open>TypeError\<close> of the runtime when
  \<^verbatim>\<open>this.transforms[file.fieldname]\<close> is not a function, or the \<open>TypeError\<close> of
  \<^verbatim>\<open>pipe\<close> when the value returned is truthy and has no method \<^verbatim>\<open>on\<close>.
  A name that the value inherits is looked up like an own one: under
  \<^verbatim>\<open>hasOwnProperty\<close> an object literal finds the function of
  \<^verbatim>\<open>Object.prototype\<close>, and the call is made.
\<close>

definition notAFunction :: js_error where
  "notAFunction = TypeError ''this.transforms[file.fieldname] is not a function''"

definition notAStream :: js_error where
  "notAStream = TypeError ''dest.on is not a function''"

definition called :: "factory \<Rightarrow> js_error + transform option" where
  "called f =
     (case f of
        Throws exn \<Rightarrow> Inl exn
      | ReturnsFalsy \<Rightarrow> Inr None
      | ReturnsStream t \<Rightarrow> Inr (Some t)
      | ReturnsOther \<Rightarrow> Inl notAStream)"

definition transform_of :: "transforms_value \<Rightarrow> string \<Rightarrow> js_error + transform option" where
  "transform_of ts field =
     (case ts of
        NoTransforms \<Rightarrow> Inr None
      | SharedFactory f \<Rightarrow> called f
      | PerField table \<Rightarrow>
          (case table field of Some f \<Rightarrow> called f | None \<Rightarrow> Inl notAFunction))"

text \<open>The number of transform streams the step has obtained.\<close>

definition instances_of :: "transform option \<Rightarrow> nat" where
  "instances_of transform = (case transform of Some t \<Rightarrow> 1 | None \<Rightarrow> 0)"

text \<open>The file information \<^verbatim>\<open>_handleFile\<close> reports on success.\<close>

record upload_info =
  res_size :: nat
  res_bucket :: val
  res_key :: val
  res_acl :: val
  res_contentType :: string
  res_contentDisposition :: val
  res_storageClass :: val
  res_serverSideEncryption :: val
  res_metadata :: val
  res_location :: val
  res_etag :: val
  res_versionId :: val

text \<open>
  The two listeners \<^verbatim>\<open>_handleFile\<close> registers on an upload, run over the events of
  the upload: a progress event with a truthy \<open>total\<close> overwrites \<open>currentSize\<close>, and
  each call of the callback of \<^verbatim>\<open>send\<close> calls \<open>cb\<close>, with the error or with the
  file information and the value \<open>currentSize\<close> has then. The result is the list of the
  calls to \<open>cb\<close>.
\<close>

definition info :: "attrs \<Rightarrow> nat \<Rightarrow> s3_result \<Rightarrow> upload_info" where
  "info opts currentSize result =
     \<lparr> res_size = currentSize,
       res_bucket = bucket opts,
       res_key = key opts,
       res_acl = acl opts,
       res_contentType = contentType opts,
       res_contentDisposition = contentDisposition opts,
       res_storageClass = storageClass opts,
       res_serverSideEncryption = serverSideEncryption opts,
       res_metadata = metadata opts,
       res_location = Location result,
       res_etag = ETag result,
       res_versionId = VersionId result \<rparr>"

fun send :: "attrs \<Rightarrow> nat \<Rightarrow> upload_event list \<Rightarrow> (js_error + upload_info) list" where
  "send opts currentSize [] = []"
| "send opts currentSize (HttpUploadProgress None # evs) = send opts currentSize evs"
| "send opts currentSize (HttpUploadProgress (Some n) # evs) =
     send opts (if n \<noteq> 0 then n else currentSize) evs"
| "send opts currentSize (Sent (Inl err) # evs) = Inl err # send opts currentSize evs"
| "send opts currentSize (Sent (Inr result) # evs) =
     Inr (info opts currentSize result) # send opts currentSize evs"


fun reportedTotals :: "upload_event list \<Rightarrow> nat list" where
  "reportedTotals [] = []"
| "reportedTotals (HttpUploadProgress None # evs) = reportedTotals evs"
| "reportedTotals (HttpUploadProgress (Some n) # evs) =
     (if n \<noteq> 0 then n # reportedTotals evs else reportedTotals evs)"
| "reportedTotals (Sent res # evs) = reportedTotals evs"

text \<open>
  What one call of \<^verbatim>\<open>_handleFile\<close> does: the calls it makes to its callback, the
  requests it passes to \<^verbatim>\<open>s3.upload\<close>, the number of transform streams it obtains,
  and the exception it raises without catching it, if any. Everything past the call of
  \<^verbatim>\<open>collect\<close> runs in the callback of \<^verbatim>\<open>collect\<close>, in a later turn of the
  event loop: \<^verbatim>\<open>_handleFile\<close> has returned by then, so such an exception does not
  reach the caller of \<^verbatim>\<open>_handleFile\<close>. Nothing catches it: it surfaces as an
  uncaught exception, or as an unhandled rejection when the callback runs under the
  \<^verbatim>\<open>async\<close> handler of \<^verbatim>\<open>autoContentType\<close>.
\<close>

record outcome =
  callbacks :: "(js_error + upload_info) list"
  uploads :: "params list"
  instances :: nat
  thrown :: "js_error option"

text \<open>The template literal of the mismatch error.\<close>

definition mismatchMessage :: "string \<Rightarrow> string \<Rightarrow> string \<Rightarrow> string" where
  \<open>mismatchMessage ct mime name =
     ''MIMETYPE_MISMATCH: Actual content-type "'' @ ct
     @ ''" does not match the mime-type "'' @ mime
     @ ''" assumed by the file extension for file "'' @ name @ ''"''\<close>

text \<open>
  Four expressions of \<^verbatim>\<open>_handleFile\<close>, named: the stream the body is read from
  (\<^verbatim>\<open>opts.replacementStream || file.stream\<close>), the stream \<open>fileStream\<close> that
  becomes the body (the source piped into the transform, when there is one), the request
  object, and the condition under which the mismatch error is reported.
\<close>

definition sourceStream :: "attrs \<Rightarrow> file_descriptor \<Rightarrow> readable" where
  "sourceStream opts file =
     (case replacementStream opts of Some rs \<Rightarrow> rs | None \<Rightarrow> stream file)"

definition fileStream :: "transform option \<Rightarrow> attrs \<Rightarrow> file_descriptor \<Rightarrow> readable" where
  "fileStream transform opts file =
     (case transform of
        Some t \<Rightarrow> t (sourceStream opts file)
      | None \<Rightarrow> sourceStream opts file)"

definition uploadParams :: "attrs \<Rightarrow> readable \<Rightarrow> params" where
  "uploadParams opts body =
     \<lparr> Bucket = bucket opts,
       Key = key opts,
       ACL = acl opts,
       CacheControl = cacheControl opts,
       ContentType = contentType opts,
       Metadata = metadata opts,
       StorageClass = storageClass opts,
       ServerSideEncryption = serverSideEncryption opts,
       SSEKMSKeyId = sseKmsKeyId opts,
       Body = body,
       ContentDisposition =
         (if truthy (contentDisposition opts) then Some (contentDisposition opts) else None) \<rparr>"

definition mimeTypeConflict :: "'r storage \<Rightarrow> attrs \<Rightarrow> file_descriptor \<Rightarrow> bool" where
  "mimeTypeConflict this opts file =
     (truthy (throwMimeTypeConflictErrors this)
      \<and> contentType opts \<noteq> ''application/octet-stream''
      \<and> mimetype file \<noteq> contentType opts)"

definition handleFile :: "env \<Rightarrow> 'r storage \<Rightarrow> 'r \<Rightarrow> file_descriptor \<Rightarrow> outcome" where
  "handleFile env this req file =
     (case collect env this req file of
        None \<Rightarrow> \<lparr> callbacks = [], uploads = [], instances = 0, thrown = None \<rparr>
      | Some (Inl err) \<Rightarrow>
          \<lparr> callbacks = [Inl err], uploads = [], instances = 0, thrown = None \<rparr>
      | Some (Inr opts) \<Rightarrow>
          (case transform_of (transforms this) (fieldname file) of
             Inl exn \<Rightarrow> \<lparr> callbacks = [], uploads = [], instances = 0, thrown = Some exn \<rparr>
           | Inr transform \<Rightarrow>
               let n = instances_of transform;
                   ps = uploadParams opts (fileStream transform opts file)
               in if mimeTypeConflict this opts file
                  then \<lparr> callbacks =
                           [Inl (Error (mismatchMessage (contentType opts) (mimetype file)
                                          (originalname file)))],
                         uploads = [], instances = n, thrown = None \<rparr>
                  else (case s3 this of
                          JObj client \<Rightarrow>
                            \<lparr> callbacks = send opts 0 (upload client ps),
                              uploads = [ps], instances = n, thrown = None \<rparr>
                        | _ \<Rightarrow>
                            \<lparr> callbacks = [], uploads = [], instances = n,
                              thrown = Some (TypeError ''Cannot read properties of null'') \<rparr>)))"

section \<open>Removing a file\<close>

text \<open>
  The stored file \<^verbatim>\<open>_removeFile\<close> receives carries the \<open>bucket\<close> and \<open>key\<close>
  properties of an earlier upload. One call does: the \<^verbatim>\<open>deleteObject\<close> requests it
  makes, the calls its callback receives, and the exception that leaves it, if any. The
  callback is handed to the collaborator as it is.
\<close>

record stored_file =
  file_bucket :: val
  file_key :: val

record removal =
  deletions :: "(val \<times> val) list"
  removed :: "(js_error option \<times> val) list"
  raised :: "js_error option"

definition removeFile :: "'r storage \<Rightarrow> 'r \<Rightarrow> stored_file \<Rightarrow> removal" where
  "removeFile this req file =
     (case s3 this of
        JObj client \<Rightarrow>
          \<lparr> deletions = [(file_bucket file, file_key file)],
            removed = deleteObject client (file_bucket file) (file_key file),
            raised = None \<rparr>
      | _ \<Rightarrow>
          \<lparr> deletions = [], removed = [],
            raised = Some (TypeError ''Cannot read properties of null'') \<rparr>)"

section \<open>Test fixtures\<close>

text \<open>
  The mock client of \<^verbatim>\<open>test/util/mock-s3.js\<close>: \<^verbatim>\<open>send\<close> reads the whole body,
  emits one progress event whose total is the length of the body, and calls back with the
  canned location and ETag. The mock has no \<^verbatim>\<open>deleteObject\<close>; the sample client adds
  one that calls back once without an error.
\<close>

definition mockS3_upload :: "params \<Rightarrow> upload_event list" where
  "mockS3_upload opts =
     [ HttpUploadProgress (Some (length (bytes (Body opts)))),
       Sent (Inr \<lparr> Location = JStr ''mock-location'',
                   ETag = JStr ''mock-etag'',
                   VersionId = JUndefined \<rparr>) ]"

definition sampleClient :: s3client where
  "sampleClient =
     \<lparr> upload = mockS3_upload,
       deleteObject = (\<lambda>b k. [(None, JObj [])]) \<rparr>"

text \<open>
  A sample environment: the detector knows the PNG signature, the SVG test looks for an
  opening \<^verbatim>\<open><svg\<close> tag, and the stream emits nothing while the detector is suspended.
\<close>

definition pngSignature :: chunk where
  "pngSignature = [0x89, 0x50, 0x4E, 0x47, 0x0D, 0x0A, 0x1A, 0x0A]"

definition svgTag :: chunk where
  "svgTag = [0x3C, 0x73, 0x76, 0x67]"

definition sampleEnv :: env where
  "sampleEnv =
     \<lparr> randomBytes = Inr [0x00, 0xFF],
       randomBytes_at = 1,
       fileTypeFromBuffer = (\<lambda>c. if take 8 c = pngSignature then Some ''image/png'' else None),
       isSvg = (\<lambda>c. take 4 c = svgTag),
       missed = 0 \<rparr>"

text \<open>The options of the test suite: a client and a bucket name, everything else absent.\<close>

definition sampleOptions :: "unit options" where
  "sampleOptions =
     \<lparr> o_s3 = JObj sampleClient,
       o_bucket = JStr ''test'',
       o_key = JUndefined,
       o_acl = JUndefined,
       o_contentType = JUndefined,
       o_metadata = JUndefined,
       o_cacheControl = JUndefined,
       o_contentDisposition = JUndefined,
       o_storageClass = JUndefined,
       o_serverSideEncryption = JUndefined,
       o_sseKmsKeyId = JUndefined,
       o_throwMimeTypeConflictErrors = JUndefined,
       o_transforms = NoTransforms \<rparr>"

definition sampleStorage :: "unit storage" where
  "sampleStorage =
     \<lparr> s3 = JObj sampleClient,
       getBucket = staticValue (JStr ''test''),
       getKey = defaultKey,
       getAcl = defaultAcl,
       getContentType = defaultContentType,
       getMetadata = defaultMetadata,
       getCacheControl = defaultCacheControl,
       getContentDisposition = defaultContentDisposition,
       getStorageClass = defaultStorageClass,
       getSSE = defaultSSE,
       getSSEKMS = defaultSSEKMS,
       throwMimeTypeConflictErrors = JUndefined,
       transforms = NoTransforms \<rparr>"

text \<open>A PNG file named as a PDF, in one chunk: the signature and two more bytes.\<close>

definition pngAsPdf :: file_descriptor where
  "pngAsPdf =
     \<lparr> fieldname = ''image'',
       originalname = ''actually-a-png.pdf'',
       mimetype = ''application/pdf'',
       stream = [[0x89, 0x50, 0x4E, 0x47, 0x0D, 0x0A, 0x1A, 0x0A, 0x00, 0x01]] \<rparr>"

text \<open>A text file delivered in two chunks.\<close>

definition twoChunks :: file_descriptor where
  "twoChunks =
     \<lparr> fieldname = ''file'',
       originalname = ''test.txt'',
       mimetype = ''text/plain'',
       stream = [[0x68, 0x65], [0x6C, 0x6C, 0x6F]] \<rparr>"

text \<open>
  Adapters built from the sample one: with content-type detection, and with mismatch
  enforcement on top; the attribute set the sample adapter resolves, and the replies of its
  nine strategies.
\<close>

definition autoStorage :: "unit storage" where
  "autoStorage = sampleStorage\<lparr>getContentType := autoContentType\<rparr>"

definition enforcing :: "unit storage" where
  "enforcing = autoStorage\<lparr>throwMimeTypeConflictErrors := JBool True\<rparr>"

definition sampleAttrs :: "string \<Rightarrow> readable option \<Rightarrow> attrs" where
  "sampleAttrs ct rs =
     \<lparr> bucket = JStr ''test'',
       key = JStr (toHex [0x00, 0xFF]),
       acl = JStr ''private'',
       metadata = JNull,
       cacheControl = JNull,
       contentDisposition = JNull,
       storageClass = JStr ''STANDARD'',
       contentType = ct,
       replacementStream = rs,
       serverSideEncryption = JNull,
       sseKmsKeyId = JNull \<rparr>"

definition sampleReplies :: "val reply list" where
  "sampleReplies =
     [ Reply 0 None (JStr ''test'') None,
       Reply 1 None (JStr (toHex [0x00, 0xFF])) None,
       Reply 0 None (JStr ''private'') None,
       Reply 0 None JNull None,
       Reply 0 None JNull None,
       Reply 0 None JNull None,
       Reply 0 None (JStr ''STANDARD'') None,
       Reply 0 None JNull None,
       Reply 0 None JNull None ]"

text \<open>
  A client that reports several totals before it completes, two failing strategies, and an
  environment in which \<^verbatim>\<open>randomBytes\<close> fails.
\<close>

definition progressClient :: s3client where
  "progressClient =
     \<lparr> upload = (\<lambda>ps. [ HttpUploadProgress (Some 5),
                         HttpUploadProgress (Some 3),
                         HttpUploadProgress None,
                         HttpUploadProgress (Some 0),
                         Sent (Inr \<lparr> Location = JStr ''mock-location'',
                                     ETag = JStr ''mock-etag'',
                                     VersionId = JUndefined \<rparr>) ]),
       deleteObject = (\<lambda>b k. []) \<rparr>"

definition aclDenied :: "(unit, val) strategy" where
  "aclDenied = (\<lambda>env req file. Reply 0 (Some (Error ''acl denied'')) JUndefined None)"

definition typeUnknown :: "(unit, string) strategy" where
  "typeUnknown = (\<lambda>env req file. Reply 0 (Some (Error ''type unknown'')) [] None)"

definition noEntropy :: env where
  "noEntropy = sampleEnv\<lparr>randomBytes := Inl (Error ''no entropy'')\<rparr>"





definition storedSample :: stored_file where
  "storedSample = \<lparr> file_bucket = JStr ''test'', file_key = JStr ''00ff'' \<rparr>"

definition emptyFile :: file_descriptor where
  "emptyFile =
     \<lparr> fieldname = ''file'', originalname = ''empty.txt'', mimetype = ''text/plain'',
       stream = [] \<rparr>"

definition svgFile :: file_descriptor where
  "svgFile =
     \<lparr> fieldname = ''image'', originalname = ''test.svg'', mimetype = ''image/svg+xml'',
       stream = [[0x3C, 0x73, 0x76, 0x67, 0x3E]] \<rparr>"

definition lossy :: env where
  "lossy = sampleEnv\<lparr>missed := 1\<rparr>"

section \<open>Facts about construction\<close>


lemma orThrow_Inr: "orThrow m f = Inr y \<longleftrightarrow> (\<exists>x. m = Inr x \<and> f x = Inr y)"
  by (cases m) (simp_all add: orThrow_def)
















lemma S3Storage_s3_irrelevant:
  assumes "typeof v = ''object''" and "typeof w = ''object''"
    and "S3Storage (opts\<lparr>o_s3 := v\<rparr>) = Inr st"
  shows "S3Storage (opts\<lparr>o_s3 := w\<rparr>) = Inr (st\<lparr>s3 := w\<rparr>)"
  using assms by (auto simp add: S3Storage_def orThrow_Inr)

section \<open>Facts about attribute resolution\<close>

lemma errors_of_set:
  "(t, e) \<in> set (errors_of rs) \<longleftrightarrow> (\<exists>v r. Reply t (Some e) v r \<in> set rs)"
  by (induction rs rule: errors_of.induct) auto

lemma earliest_first:
  "\<exists>pre m post. x # xs = pre @ m # post \<and> earliest x xs = m
     \<and> (\<forall>p \<in> set pre. fst m < fst p) \<and> (\<forall>q \<in> set post. fst m \<le> fst q)"
proof (induction xs arbitrary: x)
  case Nil
  have "[x] = [] @ x # [] \<and> earliest x [] = x
    \<and> (\<forall>p \<in> set []. fst x < fst p) \<and> (\<forall>q \<in> set []. fst x \<le> fst q)"
    by simp
  then show ?case by blast
next
  case (Cons y ys)
  show ?case
  proof (cases "fst y < fst x")
    case True
    from Cons.IH [of y] obtain pre m post where
      split: "y # ys = pre @ m # post" and m: "earliest y ys = m"
      and before: "\<forall>p \<in> set pre. fst m < fst p" and after: "\<forall>q \<in> set post. fst m \<le> fst q"
      by blast
    have "fst m \<le> fst y"
    proof (cases pre)
      case Nil
      with split show ?thesis by simp
    next
      case (Cons p ps)
      with split before show ?thesis by auto
    qed
    with True have less: "fst m < fst x" by simp
    have e: "earliest x (y # ys) = m"
      using True m by simp
    have s: "x # y # ys = (x # pre) @ m # post"
      using split by simp
    have b: "\<forall>p \<in> set (x # pre). fst m < fst p"
      using before less by simp
    from e s b after show ?thesis by blast
  next
    case False
    from Cons.IH [of x] obtain pre m post where
      split: "x # ys = pre @ m # post" and m: "earliest x ys = m"
      and before: "\<forall>p \<in> set pre. fst m < fst p" and after: "\<forall>q \<in> set post. fst m \<le> fst q"
      by blast
    show ?thesis
    proof (cases pre)
      case Nil
      with split have mx: "m = x" and post: "post = ys" by simp_all
      have e: "earliest x (y # ys) = m"
        using False m by simp
      have s: "x # y # ys = [] @ m # (y # ys)"
        using mx by simp
      have b: "\<forall>p \<in> set []. fst m < fst p"
        by simp
      have a: "\<forall>q \<in> set (y # ys). fst m \<le> fst q"
        using after post mx False by auto
      from e s b a show ?thesis by blast
    next
      case (Cons p ps)
      with split have p: "p = x" and ys: "ys = ps @ m # post" by simp_all
      from before Cons p have "fst m < fst x" by simp
      with False have less: "fst m < fst y" by simp
      have e: "earliest x (y # ys) = m"
        using False m by simp
      have s: "x # y # ys = (x # y # ps) @ m # post"
        using ys by simp
      have b: "\<forall>p \<in> set (x # y # ps). fst m < fst p"
        using before Cons p less by simp
      from e s b after show ?thesis by blast
    qed
  qed
qed

lemma parallel_error:
  assumes "errors_of rs \<noteq> []"
  shows "\<exists>pre m post. errors_of rs = pre @ m # post \<and> parallel rs = Some (Inl (snd m))
     \<and> (\<forall>p \<in> set pre. fst m < fst p) \<and> (\<forall>q \<in> set post. fst m \<le> fst q)"
proof -
  from assms obtain x xs where es: "errors_of rs = x # xs"
    by (cases "errors_of rs") auto
  from earliest_first [of x xs] obtain pre m post where
    split: "x # xs = pre @ m # post" and m: "earliest x xs = m"
    and before: "\<forall>p \<in> set pre. fst m < fst p" and after: "\<forall>q \<in> set post. fst m \<le> fst q"
    by blast
  from es m have "parallel rs = Some (Inl (snd m))"
    by (simp add: parallel_def)
  with es split before after
  have "errors_of rs = pre @ m # post \<and> parallel rs = Some (Inl (snd m))
     \<and> (\<forall>p \<in> set pre. fst m < fst p) \<and> (\<forall>q \<in> set post. fst m \<le> fst q)"
    by simp
  then show ?thesis by blast
qed

lemma parallel_values:
  "parallel rs = Some (Inr vs) \<longleftrightarrow> errors_of rs = [] \<and> values_of rs = Some vs"
  by (auto simp add: parallel_def split: list.splits)

lemma parallel_silent:
  "parallel rs = None \<longleftrightarrow> errors_of rs = [] \<and> values_of rs = None"
  by (auto simp add: parallel_def split: list.splits)

lemma values_of_Some:
  "values_of rs = Some vs \<Longrightarrow> length vs = length rs \<and> NoReply \<notin> set rs"
  by (induction rs arbitrary: vs rule: values_of.induct) auto

lemma values_of_None: "values_of rs = None \<longleftrightarrow> NoReply \<in> set rs"
  by (induction rs rule: values_of.induct) auto

text \<open>The array of results has nine entries, so every index \<^verbatim>\<open>collect\<close> reads exists.\<close>

lemma parallel_length:
  "parallel (tasks env this req f) = Some (Inr vs) \<Longrightarrow> length vs = 9"
  using values_of_Some [of "tasks env this req f" vs]
  by (simp add: parallel_values) (simp add: tasks_def)

lemma collect_parallel_error:
  "parallel (tasks env this req f) = Some (Inl e) \<Longrightarrow> collect env this req f = Some (Inl e)"
  by (simp add: collect_def)

lemma collect_contentType_error:
  "parallel (tasks env this req f) = Some (Inr vs) \<Longrightarrow>
   getContentType this env req f = Reply t (Some e) ct rs \<Longrightarrow>
   collect env this req f = Some (Inl e)"
  by (simp add: collect_def)

section \<open>Facts about storing\<close>

text \<open>The outcome of \<^verbatim>\<open>_handleFile\<close>, path by path.\<close>

lemma handleFile_resolution_error:
  "collect env this req f = Some (Inl e) \<Longrightarrow>
   handleFile env this req f =
     \<lparr> callbacks = [Inl e], uploads = [], instances = 0, thrown = None \<rparr>"
  by (simp add: handleFile_def)

lemma handleFile_silent:
  "collect env this req f = None \<Longrightarrow>
   handleFile env this req f =
     \<lparr> callbacks = [], uploads = [], instances = 0, thrown = None \<rparr>"
  by (simp add: handleFile_def)

lemma handleFile_transform_throws:
  "collect env this req f = Some (Inr opts) \<Longrightarrow>
   transform_of (transforms this) (fieldname f) = Inl exn \<Longrightarrow>
   handleFile env this req f =
     \<lparr> callbacks = [], uploads = [], instances = 0, thrown = Some exn \<rparr>"
  by (simp add: handleFile_def)

lemma handleFile_mismatch:
  "collect env this req f = Some (Inr opts) \<Longrightarrow>
   transform_of (transforms this) (fieldname f) = Inr transform \<Longrightarrow>
   mimeTypeConflict this opts f \<Longrightarrow>
   handleFile env this req f =
     \<lparr> callbacks = [Inl (Error (mismatchMessage (contentType opts) (mimetype f)
                                  (originalname f)))],
       uploads = [],
       instances = instances_of transform,
       thrown = None \<rparr>"
  by (simp add: handleFile_def)

lemma handleFile_upload:
  "collect env this req f = Some (Inr opts) \<Longrightarrow>
   transform_of (transforms this) (fieldname f) = Inr transform \<Longrightarrow>
   \<not> mimeTypeConflict this opts f \<Longrightarrow>
   s3 this = JObj client \<Longrightarrow>
   handleFile env this req f =
     \<lparr> callbacks = send opts 0 (upload client (uploadParams opts (fileStream transform opts f))),
       uploads = [uploadParams opts (fileStream transform opts f)],
       instances = instances_of transform,
       thrown = None \<rparr>"
  by (simp add: handleFile_def Let_def)

lemma handleFile_no_client:
  "collect env this req f = Some (Inr opts) \<Longrightarrow>
   transform_of (transforms this) (fieldname f) = Inr transform \<Longrightarrow>
   \<not> mimeTypeConflict this opts f \<Longrightarrow>
   \<forall>client. s3 this \<noteq> JObj client \<Longrightarrow>
   handleFile env this req f =
     \<lparr> callbacks = [], uploads = [],
       instances = instances_of transform,
       thrown = Some (TypeError ''Cannot read properties of null'') \<rparr>"
  by (cases "s3 this") (simp_all add: handleFile_def Let_def)

lemma handleFile_cases:
  obtains
    (silent) "collect env this req f = None"
  | (failed) e where "collect env this req f = Some (Inl e)"
  | (throws) opts exn where "collect env this req f = Some (Inr opts)"
      "transform_of (transforms this) (fieldname f) = Inl exn"
  | (mismatch) opts transform where "collect env this req f = Some (Inr opts)"
      "transform_of (transforms this) (fieldname f) = Inr transform"
      "mimeTypeConflict this opts f"
  | (upload) opts transform client where "collect env this req f = Some (Inr opts)"
      "transform_of (transforms this) (fieldname f) = Inr transform"
      "\<not> mimeTypeConflict this opts f" "s3 this = JObj client"
  | (no_client) opts transform where "collect env this req f = Some (Inr opts)"
      "transform_of (transforms this) (fieldname f) = Inr transform"
      "\<not> mimeTypeConflict this opts f" "\<forall>client. s3 this \<noteq> JObj client"
proof (cases "collect env this req f")
  case None
  then show ?thesis by (rule silent)
next
  case (Some res)
  show ?thesis
  proof (cases res)
    case (Inl e)
    with Some show ?thesis by (simp add: failed)
  next
    case (Inr opts)
    show ?thesis
    proof (cases "transform_of (transforms this) (fieldname f)")
      case (Inl exn)
      with Some \<open>res = Inr opts\<close> show ?thesis by (simp add: throws)
    next
      case tr: (Inr transform)
      show ?thesis
      proof (cases "mimeTypeConflict this opts f")
        case True
        with Some \<open>res = Inr opts\<close> tr show ?thesis by (simp add: mismatch)
      next
        case False
        show ?thesis
        proof (cases "\<exists>client. s3 this = JObj client")
          case True
          then obtain client where "s3 this = JObj client" by blast
          with Some \<open>res = Inr opts\<close> tr False show ?thesis by (simp add: upload)
        next
          case nc: False
          with Some \<open>res = Inr opts\<close> tr False show ?thesis by (simp add: no_client)
        qed
      qed
    qed
  qed
qed


lemma Body_uploadParams: "Body (uploadParams opts body) = body"
  by (simp add: uploadParams_def)




lemma no_conflict_sample:
  "throwMimeTypeConflictErrors this = JUndefined \<Longrightarrow> \<not> mimeTypeConflict this opts f"
  by (simp add: mimeTypeConflict_def)

text \<open>Without a client object, \<^verbatim>\<open>_removeFile\<close> throws and requests nothing.\<close>

lemma removeFile_without_client:
  "\<forall>client. s3 this \<noteq> JObj client \<Longrightarrow>
   deletions (removeFile this req f) = [] \<and> removed (removeFile this req f) = []
   \<and> raised (removeFile this req f) = Some (TypeError ''Cannot read properties of null'')"
  by (cases "s3 this") (simp_all add: removeFile_def)


lemma send_success:
  "Inr res \<in> set (send opts n evs) \<Longrightarrow>
   \<exists>pre r post. evs = pre @ Sent (Inr r) # post
     \<and> res = info opts (if reportedTotals pre = [] then n else last (reportedTotals pre)) r"
proof (induction opts n evs rule: send.induct)
  case (1 opts currentSize)
  then show ?case by simp
next
  case (2 opts currentSize evs)
  then obtain pre r post where
    "evs = pre @ Sent (Inr r) # post"
    "res = info opts (if reportedTotals pre = [] then currentSize else last (reportedTotals pre)) r"
    by auto
  then have "HttpUploadProgress None # evs = (HttpUploadProgress None # pre) @ Sent (Inr r) # post
     \<and> res = info opts (if reportedTotals (HttpUploadProgress None # pre) = [] then currentSize
                         else last (reportedTotals (HttpUploadProgress None # pre))) r"
    by simp
  then show ?case by blast
next
  case (3 opts currentSize n evs)
  then obtain pre r post where
    "evs = pre @ Sent (Inr r) # post"
    "res = info opts (if reportedTotals pre = [] then (if n \<noteq> 0 then n else currentSize)
                      else last (reportedTotals pre)) r"
    by auto
  then have "HttpUploadProgress (Some n) # evs
       = (HttpUploadProgress (Some n) # pre) @ Sent (Inr r) # post
     \<and> res = info opts (if reportedTotals (HttpUploadProgress (Some n) # pre) = []
                         then currentSize
                         else last (reportedTotals (HttpUploadProgress (Some n) # pre))) r"
    by simp
  then show ?case by blast
next
  case (4 opts currentSize err evs)
  then obtain pre r post where
    "evs = pre @ Sent (Inr r) # post"
    "res = info opts (if reportedTotals pre = [] then currentSize else last (reportedTotals pre)) r"
    by auto
  then have "Sent (Inl err) # evs = (Sent (Inl err) # pre) @ Sent (Inr r) # post
     \<and> res = info opts (if reportedTotals (Sent (Inl err) # pre) = [] then currentSize
                         else last (reportedTotals (Sent (Inl err) # pre))) r"
    by simp
  then show ?case by blast
next
  case (5 opts currentSize result evs)
  show ?case
  proof (cases "res = info opts currentSize result")
    case True
    then have "Sent (Inr result) # evs = [] @ Sent (Inr result) # evs
      \<and> res = info opts (if reportedTotals [] = [] then currentSize
                          else last (reportedTotals [])) result"
      by simp
    then show ?thesis by blast
  next
    case False
    with 5 obtain pre r post where
      "evs = pre @ Sent (Inr r) # post"
      "res = info opts (if reportedTotals pre = [] then currentSize
                        else last (reportedTotals pre)) r"
      by auto
    then have "Sent (Inr result) # evs = (Sent (Inr result) # pre) @ Sent (Inr r) # post
      \<and> res = info opts (if reportedTotals (Sent (Inr result) # pre) = [] then currentSize
                          else last (reportedTotals (Sent (Inr result) # pre))) r"
      by simp
    then show ?thesis by blast
  qed
qed

text \<open>
  What the replacement stream of \<^verbatim>\<open>autoContentType\<close> holds: the first chunk, and the
  chunks of the file's stream but those missed. Nothing is lost when none is missed, and
  without detection the body is read from the file's stream itself.
\<close>

lemma replay:
  "autoContentType env req f = Reply t err ct (Some out) \<Longrightarrow>
   \<exists>firstChunk rest. stream f = firstChunk # rest \<and> out = firstChunk # drop (missed env) rest"
  by (cases "stream f") (simp_all add: autoContentType_def Let_def)

lemma replay_lossless:
  "missed env = 0 \<Longrightarrow> autoContentType env req f = Reply t err ct (Some out) \<Longrightarrow>
   bytes out = bytes (stream f)"
  by (cases "stream f") (auto simp add: autoContentType_def Let_def)

lemma body_without_detection:
  "collect env this req f = Some (Inr opts) \<Longrightarrow>
   getContentType this = defaultContentType \<Longrightarrow>
   sourceStream opts f = stream f"
  by (auto simp add: collect_def sourceStream_def defaultContentType_def staticValue_def
      split: option.splits sum.splits)

lemma body_lossless:
  assumes "collect env this req f = Some (Inr opts)"
    and "getContentType this = autoContentType" and "missed env = 0"
  shows "bytes (sourceStream opts f) = bytes (stream f)"
proof (cases "replacementStream opts")
  case None
  then show ?thesis by (simp add: sourceStream_def)
next
  case (Some out)
  with assms(1,2) obtain t err where "autoContentType env req f = Reply t err (contentType opts) (Some out)"
    by (auto simp add: collect_def split: option.splits sum.splits reply.splits)
  from replay_lossless [OF assms(3) this] Some show ?thesis
    by (simp add: sourceStream_def)
qed

text \<open>
  A stream that emits no chunk: \<^verbatim>\<open>autoContentType\<close> never calls back, and neither does
  \<^verbatim>\<open>_handleFile\<close>.
\<close>

lemma empty_stream_silent:
  assumes "stream f = []" and "getContentType this = autoContentType"
  shows "callbacks (handleFile env this req f) = [] \<or> (\<exists>e. callbacks (handleFile env this req f) = [Inl e]
           \<and> parallel (tasks env this req f) = Some (Inl e))"
proof (cases "parallel (tasks env this req f)")
  case None
  then show ?thesis by (simp add: handleFile_def collect_def)
next
  case (Some res)
  show ?thesis
  proof (cases res)
    case (Inl e)
    with Some show ?thesis by (simp add: handleFile_def collect_def)
  next
    case (Inr vs)
    with Some assms show ?thesis
      by (simp add: handleFile_def collect_def autoContentType_def)
  qed
qed

section \<open>The fixtures, evaluated\<close>

lemmas strategy_defs =
  staticValue_def defaultAcl_def defaultContentType_def defaultMetadata_def
  defaultCacheControl_def defaultContentDisposition_def defaultStorageClass_def
  defaultSSE_def defaultSSEKMS_def defaultKey_def autoContentType_def

lemma S3Storage_sample: "S3Storage sampleOptions = Inr sampleStorage"
  by (simp add: S3Storage_def sampleOptions_def sampleStorage_def orThrow_def)

lemma tasks_frame:
  "tasks env (this\<lparr>s3 := a\<rparr>) = tasks env this"
  "tasks env (this\<lparr>getContentType := b\<rparr>) = tasks env this"
  "tasks env (this\<lparr>throwMimeTypeConflictErrors := c\<rparr>) = tasks env this"
  "tasks env (this\<lparr>transforms := d\<rparr>) = tasks env this"
  by (simp_all add: tasks_def fun_eq_iff)

lemma tasks_sampleStorage: "tasks sampleEnv sampleStorage () f = sampleReplies"
  by (simp add: tasks_def sampleStorage_def sampleEnv_def strategy_defs sampleReplies_def)

lemma sampleStorage_fields:
  "s3 sampleStorage = JObj sampleClient"
  "getContentType sampleStorage = defaultContentType"
  "throwMimeTypeConflictErrors sampleStorage = JUndefined"
  "transforms sampleStorage = NoTransforms"
  by (simp_all add: sampleStorage_def)

lemma parallel_sampleReplies:
  "parallel sampleReplies
     = Some (Inr [JStr ''test'', JStr (toHex [0x00, 0xFF]), JStr ''private'', JNull, JNull,
                  JNull, JStr ''STANDARD'', JNull, JNull])"
  by (simp add: parallel_def sampleReplies_def)

lemma collect_sample:
  "tasks env this req f = sampleReplies \<Longrightarrow>
   getContentType this env req f = Reply t None ct rs \<Longrightarrow>
   collect env this req f = Some (Inr (sampleAttrs ct rs))"
  by (simp add: collect_def parallel_sampleReplies sampleAttrs_def)


lemma enforcing_fields:
  "transforms enforcing = NoTransforms"
  "throwMimeTypeConflictErrors enforcing = JBool True"
  "s3 enforcing = JObj sampleClient"
  "getContentType enforcing = autoContentType"
  by (simp_all add: enforcing_def autoStorage_def sampleStorage_def)






lemma twoChunks_fields:
  "fieldname twoChunks = ''file''"
  "originalname twoChunks = ''test.txt''"
  "mimetype twoChunks = ''text/plain''"
  "stream twoChunks = [[0x68, 0x65], [0x6C, 0x6C, 0x6F]]"
  by (simp_all add: twoChunks_def)

lemma sampleAttrs_fields:
  "contentType (sampleAttrs ct rs) = ct"
  "replacementStream (sampleAttrs ct rs) = rs"
  "contentDisposition (sampleAttrs ct rs) = JNull"
  by (simp_all add: sampleAttrs_def)

lemma send_mock:
  "send opts 0 (upload sampleClient ps)
     = [Inr (info opts (length (bytes (Body ps)))
               \<lparr> Location = JStr ''mock-location'', ETag = JStr ''mock-etag'',
                 VersionId = JUndefined \<rparr>)]"
  by (simp add: sampleClient_def mockS3_upload_def)

lemma tasks_failing:
  "tasks noEntropy (sampleStorage\<lparr>getAcl := aclDenied\<rparr>) () f =
     [ Reply 0 None (JStr ''test'') None,
       Reply 1 (Some (Error ''no entropy'')) JUndefined None,
       Reply 0 (Some (Error ''acl denied'')) JUndefined None,
       Reply 0 None JNull None,
       Reply 0 None JNull None,
       Reply 0 None JNull None,
       Reply 0 None (JStr ''STANDARD'') None,
       Reply 0 None JNull None,
       Reply 0 None JNull None ]"
  by (simp add: tasks_def sampleStorage_def sampleEnv_def noEntropy_def aclDenied_def
      strategy_defs)

lemma two_errors_split:
  assumes "[(1::nat, a), (0, b)] = pre @ m # post"
    and "\<forall>p \<in> set pre. fst m < fst p" and "\<forall>q \<in> set post. fst m \<le> fst q"
  shows "m = (0, b)"
proof (cases pre)
  case Nil
  with assms show ?thesis by auto
next
  case (Cons p ps)
  with assms show ?thesis by (cases ps) auto
qed

lemma collect_default:
  "collect sampleEnv (sampleStorage\<lparr>s3 := cl, transforms := ts\<rparr>) () f
     = Some (Inr (sampleAttrs ''application/octet-stream'' None))"
  by (rule collect_sample)
    (simp_all add: tasks_frame tasks_sampleStorage sampleStorage_fields defaultContentType_def
      staticValue_def)








lemma empty_file_silent:
  "callbacks (handleFile sampleEnv autoStorage () emptyFile) = []
   \<and> uploads (handleFile sampleEnv autoStorage () emptyFile) = []
   \<and> thrown (handleFile sampleEnv autoStorage () emptyFile) = None"
proof -
  have "collect sampleEnv autoStorage () emptyFile = None"
    by (simp add: collect_def autoStorage_def tasks_frame tasks_sampleStorage
        parallel_sampleReplies autoContentType_def emptyFile_def)
  then show ?thesis by (simp add: handleFile_silent)
qed

lemma collect_lossy:
  "collect lossy autoStorage () twoChunks
     = Some (Inr (sampleAttrs ''application/octet-stream'' (Some [[0x68, 0x65]])))"
proof (rule collect_sample)
  show "tasks lossy autoStorage () twoChunks = sampleReplies"
    by (simp add: tasks_def autoStorage_def sampleStorage_def sampleEnv_def lossy_def
        strategy_defs sampleReplies_def)
  show "getContentType autoStorage lossy () twoChunks
      = Reply 1 None ''application/octet-stream'' (Some [[0x68, 0x65]])"
    by (simp add: autoStorage_def autoContentType_def lossy_def sampleEnv_def twoChunks_def
        pngSignature_def svgTag_def)
qed

section \<open>The claims\<close>

subsection \<open>C1: the body and the file's stream\<close>

text \<open>
  Claim C1 asks that the body handed to the storage client carries the bytes of the file's
  stream, also after content-type detection has looked at the first chunk. The replay of
  \<^verbatim>\<open>autoContentType\<close> does not achieve it: its handler is suspended between the first
  \<^verbatim>\<open>'data'\<close> event and the call of \<^verbatim>\<open>pipe\<close>, and the chunks the stream emits in
  between are in neither the chunk written nor the chunks piped. The store operation is
  evaluated here on a file of two chunks whose second chunk is emitted during the
  suspension: the body is the first chunk alone, two bytes of five, and the size reported
  is 2.
\<close>

theorem replay_drops_missed_chunks:
  "map (\<lambda>ps. bytes (Body ps)) (uploads (handleFile lossy autoStorage () twoChunks))
     = [[0x68, 0x65]]
   \<and> bytes (stream twoChunks) = [0x68, 0x65, 0x6C, 0x6C, 0x6F]
   \<and> map (map_sum id res_size) (callbacks (handleFile lossy autoStorage () twoChunks))
     = [Inr 2]"
proof -
  let ?opts = "sampleAttrs ''application/octet-stream'' (Some [[0x68, 0x65]])"
  have t: "transform_of (transforms autoStorage) (fieldname twoChunks) = Inr None"
    by (simp add: transform_of_def autoStorage_def sampleStorage_fields)
  have m: "\<not> mimeTypeConflict autoStorage ?opts twoChunks"
    by (simp add: no_conflict_sample autoStorage_def sampleStorage_fields)
  have s: "s3 autoStorage = JObj sampleClient"
    by (simp add: autoStorage_def sampleStorage_fields)
  from handleFile_upload [OF collect_lossy t m s] show ?thesis
    by (simp add: send_mock Body_uploadParams fileStream_def sourceStream_def
        sampleAttrs_fields bytes_def twoChunks_fields info_def)
qed

subsection \<open>C2: mismatch enforcement\<close>



subsection \<open>C3: the types of the options\<close>




subsection \<open>C4: the order of detection\<close>

text \<open>
  Claim C4. On a stream that emits a first chunk, \<^verbatim>\<open>autoContentType\<close> calls back
  without an error and with the mime type found in this order: the type the magic-byte
  detector finds for the chunk, if it finds one; else \<^verbatim>\<open>image/svg+xml\<close> if the chunk
  passes the SVG test; else \<^verbatim>\<open>application/octet-stream\<close>. So a chunk the detector
  recognises as PNG resolves to \<^verbatim>\<open>image/png\<close>, an SVG document without a binary
  signature to \<^verbatim>\<open>image/svg+xml\<close>, and an unrecognised chunk to the generic type. The
  two detectors are those of the environment.
\<close>

theorem detection_order:
  "stream f = firstChunk # rest \<longrightarrow>
     (\<exists>t out. autoContentType env req f
        = Reply t None
            (case fileTypeFromBuffer env firstChunk of
               Some m \<Rightarrow> m
             | None \<Rightarrow> if isSvg env firstChunk then ''image/svg+xml''
                       else ''application/octet-stream'')
            (Some out))
   \<and> (fileTypeFromBuffer env firstChunk = Some ''image/png'' \<longrightarrow>
        (\<exists>t out. autoContentType env req f = Reply t None ''image/png'' (Some out)))
   \<and> (fileTypeFromBuffer env firstChunk = None \<and> isSvg env firstChunk \<longrightarrow>
        (\<exists>t out. autoContentType env req f = Reply t None ''image/svg+xml'' (Some out)))
   \<and> (fileTypeFromBuffer env firstChunk = None \<and> \<not> isSvg env firstChunk \<longrightarrow>
        (\<exists>t out. autoContentType env req f
           = Reply t None ''application/octet-stream'' (Some out)))"
  by (simp add: autoContentType_def Let_def)

theorem detection_order_witness:
  "stream pngAsPdf = [[0x89, 0x50, 0x4E, 0x47, 0x0D, 0x0A, 0x1A, 0x0A, 0x00, 0x01]]
   \<and> fileTypeFromBuffer sampleEnv [0x89, 0x50, 0x4E, 0x47, 0x0D, 0x0A, 0x1A, 0x0A, 0x00, 0x01]
       = Some ''image/png''
   \<and> (\<exists>t out. autoContentType sampleEnv () pngAsPdf = Reply t None ''image/png'' (Some out))
   \<and> stream svgFile = [[0x3C, 0x73, 0x76, 0x67, 0x3E]]
   \<and> fileTypeFromBuffer sampleEnv [0x3C, 0x73, 0x76, 0x67, 0x3E] = None
   \<and> isSvg sampleEnv [0x3C, 0x73, 0x76, 0x67, 0x3E]
   \<and> (\<exists>t out. autoContentType sampleEnv () svgFile = Reply t None ''image/svg+xml'' (Some out))
   \<and> stream twoChunks = [[0x68, 0x65], [0x6C, 0x6C, 0x6F]]
   \<and> fileTypeFromBuffer sampleEnv [0x68, 0x65] = None
   \<and> isSvg sampleEnv [0x68, 0x65] = False
   \<and> (\<exists>t out. autoContentType sampleEnv () twoChunks
         = Reply t None ''application/octet-stream'' (Some out))"
proof -
  have p1: "stream pngAsPdf = [0x89, 0x50, 0x4E, 0x47, 0x0D, 0x0A, 0x1A, 0x0A, 0x00, 0x01] # []"
    by (simp add: pngAsPdf_def)
  have p2: "fileTypeFromBuffer sampleEnv
      [0x89, 0x50, 0x4E, 0x47, 0x0D, 0x0A, 0x1A, 0x0A, 0x00, 0x01] = Some ''image/png''"
    by (simp add: sampleEnv_def pngSignature_def)
  have s1: "stream svgFile = [0x3C, 0x73, 0x76, 0x67, 0x3E] # []"
    by (simp add: svgFile_def)
  have s2: "fileTypeFromBuffer sampleEnv [0x3C, 0x73, 0x76, 0x67, 0x3E] = None
      \<and> isSvg sampleEnv [0x3C, 0x73, 0x76, 0x67, 0x3E]"
    by (simp add: sampleEnv_def pngSignature_def svgTag_def)
  have t1: "stream twoChunks = [0x68, 0x65] # [[0x6C, 0x6C, 0x6F]]"
    by (simp add: twoChunks_def)
  have t2: "fileTypeFromBuffer sampleEnv [0x68, 0x65] = None
      \<and> \<not> isSvg sampleEnv [0x68, 0x65]"
    by (simp add: sampleEnv_def pngSignature_def svgTag_def)
  note png = detection_order [where f = pngAsPdf and env = sampleEnv and req = "()"
      and firstChunk = "[0x89, 0x50, 0x4E, 0x47, 0x0D, 0x0A, 0x1A, 0x0A, 0x00, 0x01]"
      and rest = "[]", rule_format, OF p1]
  note svg = detection_order [where f = svgFile and env = sampleEnv and req = "()"
      and firstChunk = "[0x3C, 0x73, 0x76, 0x67, 0x3E]" and rest = "[]", rule_format, OF s1]
  note plain = detection_order [where f = twoChunks and env = sampleEnv and req = "()"
      and firstChunk = "[0x68, 0x65]" and rest = "[[0x6C, 0x6C, 0x6F]]", rule_format, OF t1]
  have a: "\<exists>t out. autoContentType sampleEnv () pngAsPdf = Reply t None ''image/png'' (Some out)"
    using png [THEN conjunct2, THEN conjunct1] p2 by simp
  have b: "\<exists>t out. autoContentType sampleEnv () svgFile
      = Reply t None ''image/svg+xml'' (Some out)"
    using svg [THEN conjunct2, THEN conjunct2, THEN conjunct1] s2 by simp
  have c: "\<exists>t out. autoContentType sampleEnv () twoChunks
      = Reply t None ''application/octet-stream'' (Some out)"
    using plain [THEN conjunct2, THEN conjunct2, THEN conjunct2] t2 by simp
  from p1 p2 s1 s2 t1 t2 a b c show ?thesis by simp
qed

subsection \<open>C5: calls of the completion callback\<close>




subsection \<open>C6: errors of strategies\<close>

text \<open>
  Claim C6. When one of the nine strategies reports an error, the callback of
  \<^verbatim>\<open>_handleFile\<close> is called once, with the first error encountered and with nothing
  else: among the errors reported, in task order, it is the one \<open>m\<close> reported strictly
  before every error of an earlier task and not after any error of a later task. When the
  nine succeed and the content-type strategy reports an error, the callback is called once
  with that error. In both cases no request reaches \<^verbatim>\<open>s3.upload\<close>, so no attribute
  resolved so far is used.
\<close>

theorem first_error_surfaced:
  "(Reply t (Some e) v r \<in> set (tasks env this req f) \<longrightarrow>
      (\<exists>pre m post.
          errors_of (tasks env this req f) = pre @ m # post
        \<and> (\<forall>p \<in> set pre. fst m < fst p)
        \<and> (\<forall>q \<in> set post. fst m \<le> fst q)
        \<and> callbacks (handleFile env this req f) = [Inl (snd m)])
      \<and> uploads (handleFile env this req f) = []
      \<and> thrown (handleFile env this req f) = None)
   \<and> (parallel (tasks env this req f) = Some (Inr vs)
      \<and> getContentType this env req f = Reply t' (Some e') ct rs \<longrightarrow>
      callbacks (handleFile env this req f) = [Inl e']
      \<and> uploads (handleFile env this req f) = []
      \<and> thrown (handleFile env this req f) = None)"
proof (intro conjI impI)
  assume "Reply t (Some e) v r \<in> set (tasks env this req f)"
  then have "errors_of (tasks env this req f) \<noteq> []"
    using errors_of_set [of t e "tasks env this req f"] by auto
  from parallel_error [OF this] obtain pre m post where
    es: "errors_of (tasks env this req f) = pre @ m # post"
    and par: "parallel (tasks env this req f) = Some (Inl (snd m))"
    and before: "\<forall>p \<in> set pre. fst m < fst p" and after: "\<forall>q \<in> set post. fst m \<le> fst q"
    by blast
  have out: "handleFile env this req f =
     \<lparr> callbacks = [Inl (snd m)], uploads = [], instances = 0, thrown = None \<rparr>"
    using par by (simp add: handleFile_resolution_error collect_parallel_error)
  from es before after out
  have "errors_of (tasks env this req f) = pre @ m # post
        \<and> (\<forall>p \<in> set pre. fst m < fst p)
        \<and> (\<forall>q \<in> set post. fst m \<le> fst q)
        \<and> callbacks (handleFile env this req f) = [Inl (snd m)]"
    by simp
  then show "\<exists>pre m post.
          errors_of (tasks env this req f) = pre @ m # post
        \<and> (\<forall>p \<in> set pre. fst m < fst p)
        \<and> (\<forall>q \<in> set post. fst m \<le> fst q)
        \<and> callbacks (handleFile env this req f) = [Inl (snd m)]"
    by blast
  from out show "uploads (handleFile env this req f) = []" by simp
  from out show "thrown (handleFile env this req f) = None" by simp
next
  assume a: "parallel (tasks env this req f) = Some (Inr vs)
      \<and> getContentType this env req f = Reply t' (Some e') ct rs"
  then have out: "handleFile env this req f =
     \<lparr> callbacks = [Inl e'], uploads = [], instances = 0, thrown = None \<rparr>"
    by (simp add: handleFile_resolution_error collect_contentType_error)
  from out show "callbacks (handleFile env this req f) = [Inl e']" by simp
  from out show "uploads (handleFile env this req f) = []" by simp
  from out show "thrown (handleFile env this req f) = None" by simp
qed

theorem first_error_surfaced_witness:
  "Reply 0 (Some (Error ''acl denied'')) JUndefined None
     \<in> set (tasks noEntropy (sampleStorage\<lparr>getAcl := aclDenied\<rparr>) () pngAsPdf)
   \<and> errors_of (tasks noEntropy (sampleStorage\<lparr>getAcl := aclDenied\<rparr>) () pngAsPdf)
       = [(1, Error ''no entropy''), (0, Error ''acl denied'')]
   \<and> callbacks (handleFile noEntropy (sampleStorage\<lparr>getAcl := aclDenied\<rparr>) () pngAsPdf)
       = [Inl (Error ''acl denied'')]
   \<and> uploads (handleFile noEntropy (sampleStorage\<lparr>getAcl := aclDenied\<rparr>) () pngAsPdf) = []
   \<and> parallel (tasks sampleEnv (sampleStorage\<lparr>getContentType := typeUnknown\<rparr>) () pngAsPdf)
       = Some (Inr [JStr ''test'', JStr (toHex [0x00, 0xFF]), JStr ''private'', JNull, JNull,
                    JNull, JStr ''STANDARD'', JNull, JNull])
   \<and> getContentType (sampleStorage\<lparr>getContentType := typeUnknown\<rparr>) sampleEnv () pngAsPdf
       = Reply 0 (Some (Error ''type unknown'')) [] None
   \<and> callbacks (handleFile sampleEnv (sampleStorage\<lparr>getContentType := typeUnknown\<rparr>) ()
        pngAsPdf) = [Inl (Error ''type unknown'')]
   \<and> uploads (handleFile sampleEnv (sampleStorage\<lparr>getContentType := typeUnknown\<rparr>) ()
        pngAsPdf) = []"
proof -
  let ?st = "sampleStorage\<lparr>getAcl := aclDenied\<rparr>"
  let ?st' = "sampleStorage\<lparr>getContentType := typeUnknown\<rparr>"
  have mem: "Reply 0 (Some (Error ''acl denied'')) JUndefined None
     \<in> set (tasks noEntropy ?st () pngAsPdf)"
    by (simp add: tasks_failing)
  have es: "errors_of (tasks noEntropy ?st () pngAsPdf)
       = [(1, Error ''no entropy''), (0, Error ''acl denied'')]"
    by (simp add: tasks_failing)
  from mem first_error_surfaced [where env = noEntropy and this = ?st and req = "()"
      and f = pngAsPdf and t = 0 and e = "Error ''acl denied''" and v = JUndefined and r = None]
  obtain pre m post where
    split: "errors_of (tasks noEntropy ?st () pngAsPdf) = pre @ m # post"
    and before: "\<forall>p \<in> set pre. fst m < fst p" and after: "\<forall>q \<in> set post. fst m \<le> fst q"
    and cb: "callbacks (handleFile noEntropy ?st () pngAsPdf) = [Inl (snd m)]"
    and up: "uploads (handleFile noEntropy ?st () pngAsPdf) = []"
    by blast
  from split es have "[(1::nat, Error ''no entropy''), (0, Error ''acl denied'')] = pre @ m # post"
    by simp
  from two_errors_split [OF this before after] cb
  have cb': "callbacks (handleFile noEntropy ?st () pngAsPdf) = [Inl (Error ''acl denied'')]"
    by simp
  have ct: "getContentType ?st' sampleEnv () pngAsPdf
       = Reply 0 (Some (Error ''type unknown'')) [] None"
    by (simp add: typeUnknown_def)
  have par: "parallel (tasks sampleEnv ?st' () pngAsPdf)
       = Some (Inr [JStr ''test'', JStr (toHex [0x00, 0xFF]), JStr ''private'', JNull, JNull,
                    JNull, JStr ''STANDARD'', JNull, JNull])"
    by (simp add: tasks_frame tasks_sampleStorage parallel_sampleReplies)
  from par ct first_error_surfaced [where env = sampleEnv and this = ?st' and req = "()"
      and f = pngAsPdf and t' = 0 and e' = "Error ''type unknown''" and ct = "[]" and rs = None
      and vs = "[JStr ''test'', JStr (toHex [0x00, 0xFF]), JStr ''private'', JNull, JNull,
                 JNull, JStr ''STANDARD'', JNull, JNull]"]
  have second: "callbacks (handleFile sampleEnv ?st' () pngAsPdf) = [Inl (Error ''type unknown'')]
     \<and> uploads (handleFile sampleEnv ?st' () pngAsPdf) = []"
    by simp
  from mem es cb' up par ct second show ?thesis by simp
qed

subsection \<open>C7: the transform\<close>




subsection \<open>C8: the size reported\<close>

text \<open>
  Claim C8. Every file information \<^verbatim>\<open>_handleFile\<close> reports comes from a call of the
  callback of \<^verbatim>\<open>send\<close> without an error, and its size is the last total reported by
  the progress events before that call, or 0 when none was reported: the last total wins,
  the totals are not added up. A total is reported when it passes the test
  \<^verbatim>\<open>if (ev.total)\<close> of the source.
\<close>

theorem size_is_last_total:
  "Inr res \<in> set (callbacks (handleFile env this req f)) \<longrightarrow>
     (\<exists>client ps pre r post.
         s3 this = JObj client
       \<and> uploads (handleFile env this req f) = [ps]
       \<and> upload client ps = pre @ Sent (Inr r) # post
       \<and> res_size res = (if reportedTotals pre = [] then 0 else last (reportedTotals pre)))"
proof
  assume res: "Inr res \<in> set (callbacks (handleFile env this req f))"
  show "\<exists>client ps pre r post.
         s3 this = JObj client
       \<and> uploads (handleFile env this req f) = [ps]
       \<and> upload client ps = pre @ Sent (Inr r) # post
       \<and> res_size res = (if reportedTotals pre = [] then 0 else last (reportedTotals pre))"
  proof (cases rule: handleFile_cases [of env this req f])
    case silent
    with res show ?thesis by (simp add: handleFile_silent)
  next
    case (failed e)
    with res show ?thesis by (simp add: handleFile_resolution_error)
  next
    case (throws opts exn)
    with res show ?thesis by (simp add: handleFile_transform_throws)
  next
    case (mismatch opts transform)
    with res show ?thesis by (simp add: handleFile_mismatch)
  next
    case (no_client opts transform)
    with res show ?thesis by (simp add: handleFile_no_client)
  next
    case (upload opts transform client)
    let ?ps = "uploadParams opts (fileStream transform opts f)"
    from upload have out: "handleFile env this req f =
       \<lparr> callbacks = send opts 0 (upload client ?ps), uploads = [?ps],
         instances = instances_of transform, thrown = None \<rparr>"
      by (rule handleFile_upload)
    with res have "Inr res \<in> set (send opts 0 (upload client ?ps))" by simp
    from send_success [OF this] obtain pre r post where
      evs: "upload client ?ps = pre @ Sent (Inr r) # post"
      and r: "res = info opts (if reportedTotals pre = [] then 0 else last (reportedTotals pre)) r"
      by blast
    from r have "res_size res = (if reportedTotals pre = [] then 0 else last (reportedTotals pre))"
      by (simp add: info_def)
    with evs out upload(4)
    have "s3 this = JObj client
       \<and> uploads (handleFile env this req f) = [?ps]
       \<and> upload client ?ps = pre @ Sent (Inr r) # post
       \<and> res_size res = (if reportedTotals pre = [] then 0 else last (reportedTotals pre))"
      by simp
    then show ?thesis by blast
  qed
qed

theorem size_is_last_total_witness:
  "Inr (info (sampleAttrs ''application/octet-stream'' None) 3
          \<lparr> Location = JStr ''mock-location'', ETag = JStr ''mock-etag'',
            VersionId = JUndefined \<rparr>)
     \<in> set (callbacks (handleFile sampleEnv
               (sampleStorage\<lparr>s3 := JObj progressClient, transforms := NoTransforms\<rparr>) ()
               twoChunks))
   \<and> reportedTotals [HttpUploadProgress (Some 5), HttpUploadProgress (Some 3),
         HttpUploadProgress None, HttpUploadProgress (Some 0)] = [5, 3]
   \<and> (\<exists>client ps pre r post.
         s3 (sampleStorage\<lparr>s3 := JObj progressClient, transforms := NoTransforms\<rparr>) = JObj client
       \<and> upload client ps = pre @ Sent (Inr r) # post
       \<and> 3 = (if reportedTotals pre = [] then 0 else last (reportedTotals pre)))"
proof -
  let ?st = "sampleStorage\<lparr>s3 := JObj progressClient, transforms := NoTransforms\<rparr>"
  let ?opts = "sampleAttrs ''application/octet-stream'' None"
  let ?r = "\<lparr> Location = JStr ''mock-location'', ETag = JStr ''mock-etag'',
            VersionId = JUndefined \<rparr>"
  have c: "collect sampleEnv ?st () twoChunks = Some (Inr ?opts)"
    by (rule collect_default)
  have t: "transform_of (transforms ?st) (fieldname twoChunks) = Inr None"
    by (simp add: transform_of_def)
  have m: "\<not> mimeTypeConflict ?st ?opts twoChunks"
    by (simp add: mimeTypeConflict_def sampleStorage_fields)
  have s: "s3 ?st = JObj progressClient"
    by simp
  have "callbacks (handleFile sampleEnv ?st () twoChunks)
      = send ?opts 0 (upload progressClient (uploadParams ?opts (fileStream None ?opts twoChunks)))"
    by (simp add: handleFile_upload [OF c t m s])
  also have "\<dots> = [Inr (info ?opts 3 ?r)]"
    by (simp add: progressClient_def)
  finally have mem:
    "Inr (info ?opts 3 ?r) \<in> set (callbacks (handleFile sampleEnv ?st () twoChunks))"
    by simp
  from mem size_is_last_total [where env = sampleEnv and this = ?st and req = "()"
      and f = twoChunks and res = "info ?opts 3 ?r"]
  obtain client ps pre r post where
    cl: "s3 ?st = JObj client"
    and evs: "upload client ps = pre @ Sent (Inr r) # post"
    and sz: "res_size (info ?opts 3 ?r)
               = (if reportedTotals pre = [] then 0 else last (reportedTotals pre))"
    by blast
  from sz have "3 = (if reportedTotals pre = [] then 0 else last (reportedTotals pre))"
    by (simp add: info_def)
  with cl evs have "\<exists>client ps pre r post.
         s3 ?st = JObj client
       \<and> upload client ps = pre @ Sent (Inr r) # post
       \<and> 3 = (if reportedTotals pre = [] then 0 else last (reportedTotals pre))"
    by blast
  with mem show ?thesis by simp
qed

subsection \<open>C9: removal\<close>

text \<open>
  Claim C9. On an adapter that holds a storage client, \<^verbatim>\<open>_removeFile\<close> makes exactly
  one \<^verbatim>\<open>deleteObject\<close> request, with the bucket and the key of the file it is given;
  its callback receives exactly the calls the client makes; nothing is thrown; and the
  outcome depends on the client and the file only, not on anything an upload has resolved.
\<close>

theorem removal_delegated:
  "s3 (this :: 'r storage) = JObj client \<longrightarrow>
     deletions (removeFile this req f) = [(file_bucket f, file_key f)]
   \<and> removed (removeFile this req f) = deleteObject client (file_bucket f) (file_key f)
   \<and> raised (removeFile this req f) = None
   \<and> (\<forall>(this' :: 'r storage) req'.
        s3 this' = s3 this \<longrightarrow> removeFile this' req' f = removeFile this req f)"
  by (simp add: removeFile_def)

theorem removal_delegated_witness:
  "s3 sampleStorage = JObj sampleClient
   \<and> deletions (removeFile sampleStorage () storedSample) = [(JStr ''test'', JStr ''00ff'')]
   \<and> removed (removeFile sampleStorage () storedSample) = [(None, JObj [])]
   \<and> raised (removeFile sampleStorage () storedSample) = None
   \<and> removeFile enforcing () storedSample = removeFile sampleStorage () storedSample"
proof -
  have cl: "s3 sampleStorage = JObj sampleClient"
    by (simp add: sampleStorage_fields)
  have same: "s3 enforcing = s3 sampleStorage"
    by (simp add: sampleStorage_fields enforcing_fields)
  note inst = removal_delegated [where this = sampleStorage and client = sampleClient
      and req = "()" and f = storedSample, rule_format, OF cl]
  note a = inst [THEN conjunct1]
  note b = inst [THEN conjunct2, THEN conjunct1]
  note c = inst [THEN conjunct2, THEN conjunct2, THEN conjunct1]
  note d = inst [THEN conjunct2, THEN conjunct2, THEN conjunct2, rule_format,
      where this' = enforcing and req' = "()", OF same]
  from cl a b c d show ?thesis
    by (simp add: storedSample_def sampleClient_def)
qed

subsection \<open>C10: a null client\<close>

text \<open>
  Claim C10. The check of \<^verbatim>\<open>opts.s3\<close> lets pass every value whose \<^verbatim>\<open>typeof\<close> is
  \<^verbatim>\<open>'object'\<close>, and \<open>null\<close> is one: wherever construction succeeds with a client
  object, it succeeds with \<open>null\<close> in its place and yields an adapter that holds
  \<open>null\<close>. Every value of another type, that is every value other than \<open>null\<close> and
  an object, makes the constructor throw the \<open>TypeError\<close> of its first check.
\<close>

theorem null_s3_accepted:
  "typeof (JNull :: (unit, s3client) jsval) = ''object''
   \<and> (S3Storage (opts\<lparr>o_s3 := JObj client\<rparr>) = Inr st
        \<longrightarrow> S3Storage (opts\<lparr>o_s3 := JNull\<rparr>) = Inr (st\<lparr>s3 := JNull\<rparr>))
   \<and> (typeof v \<noteq> ''object''
        \<longrightarrow> S3Storage (opts\<lparr>o_s3 := v\<rparr>) = Inl (TypeError ''Expected opts.s3 to be object''))
   \<and> (typeof v \<noteq> ''object'' \<longleftrightarrow> v \<noteq> JNull \<and> (\<forall>ob. v \<noteq> JObj ob))"
proof -
  have "S3Storage (opts\<lparr>o_s3 := JNull\<rparr>) = Inr (st\<lparr>s3 := JNull\<rparr>)"
    if "S3Storage (opts\<lparr>o_s3 := JObj client\<rparr>) = Inr st"
    using S3Storage_s3_irrelevant [where v = "JObj client" and w = JNull and opts = opts and st = st] that by simp
  moreover have "S3Storage (opts\<lparr>o_s3 := v\<rparr>) = Inl (TypeError ''Expected opts.s3 to be object'')"
    if "typeof v \<noteq> ''object''"
    using that by (simp add: S3Storage_def)
  moreover have "typeof v \<noteq> ''object'' \<longleftrightarrow> v \<noteq> JNull \<and> (\<forall>ob. v \<noteq> JObj ob)"
    by (cases v) simp_all
  ultimately show ?thesis by simp
qed

theorem null_s3_accepted_witness:
  "S3Storage (sampleOptions\<lparr>o_s3 := JObj sampleClient\<rparr>) = Inr sampleStorage
   \<and> S3Storage (sampleOptions\<lparr>o_s3 := JNull\<rparr>) = Inr (sampleStorage\<lparr>s3 := JNull\<rparr>)
   \<and> typeof (JStr ''s3'' :: (unit, s3client) jsval) \<noteq> ''object''
   \<and> typeof (JUndefined :: (unit, s3client) jsval) \<noteq> ''object''
   \<and> S3Storage (sampleOptions\<lparr>o_s3 := JStr ''s3''\<rparr>)
       = Inl (TypeError ''Expected opts.s3 to be object'')
   \<and> S3Storage (sampleOptions\<lparr>o_s3 := JUndefined\<rparr>)
       = Inl (TypeError ''Expected opts.s3 to be object'')"
proof -
  have a: "S3Storage (sampleOptions\<lparr>o_s3 := JObj sampleClient\<rparr>) = Inr sampleStorage"
    using S3Storage_sample by (simp add: sampleOptions_def)
  show ?thesis
    using a null_s3_accepted [where opts = sampleOptions and client = sampleClient
        and st = sampleStorage and v = "JStr ''s3''"]
      null_s3_accepted [where opts = sampleOptions and client = sampleClient
        and st = sampleStorage and v = JUndefined]
    by simp
qed

end
